theory Spec2Isabelle
  imports Complex_Main
begin

section \<open>Data model\<close>

text \<open>
  The records follow the dictionaries and attributes that \<^verbatim>\<open>draw_nuclide\<close> of
  \<^verbatim>\<open>ChartDrawer.py\<close> reads: \<^verbatim>\<open>nuclide.decay_modes[i]['mode']\<close>,
  \<^verbatim>\<open>nuclide.half_life['value']\<close>, \<^verbatim>\<open>nuclide.isomers\<close> and so on. Every entry is a
  string, as the comparisons of the source (\<^verbatim>\<open>== 'True'\<close>, \<^verbatim>\<open>== '='\<close>) expect.
\<close>

record decay_mode =
  mode :: string
  dm_value :: string

record half_life =
  hl_value :: string
  hl_unit :: string
  hl_relation :: string
  hl_extrapolated :: string

record isomer =
  iso_half_life :: half_life
  iso_decay_modes :: "decay_mode list"

record nuclide =
  nuc_A :: int
  element :: string
  decay_modes :: "decay_mode list"
  half_life :: half_life
  isomers :: "isomer list"

text \<open>The four command-line switches that \<^verbatim>\<open>draw_nuclide\<close> consults.\<close>

record args =
  args_unknown :: bool
  args_isomers :: bool
  args_names :: bool
  args_halflives :: bool

datatype py_error = IndexError | ValueError | UnboundLocalError

datatype tri_size = Large | Small

datatype corner = LT | RT | RB

text \<open>
  The seven places where \<^verbatim>\<open>_draw_text\<close> is called stand for the coordinates computed
  there; pixel positions and element ids are geometry and are not part of the model.
\<close>

datatype text_slot =
  NameSlot | HalfLifeSlot | IsomerNameSlot
  | GroundValueSlot | GroundUnitSlot | IsomerValueSlot | IsomerUnitSlot

datatype draw =
  DrawRectangle string
  | DrawTriangle string corner
  | DrawSmallTriangle string corner
  | DrawSmallIsomerTriangle string corner
  | DrawIsomerRectangle string
  | DrawIsomerLine
  | DrawText text_slot string int string

section \<open>Python builtins\<close>

text \<open>
  A Python float is a finite rational, an infinity or a NaN. The builtins \<^verbatim>\<open>float\<close>
  and \<^verbatim>\<open>'{0:.1e}'.format\<close> are parameters of the model: \<open>py_float\<close> returns
  \<open>None\<close> where \<^verbatim>\<open>float\<close> raises \<^verbatim>\<open>ValueError\<close>.
\<close>

datatype pyfloat = Fin rat | PInf | NInf | NaN

record builtins =
  py_float :: "string \<Rightarrow> pyfloat option"
  py_format_1e :: "pyfloat \<Rightarrow> string"

text \<open>The comparison \<^verbatim>\<open>v > c\<close> of a float with a finite constant.\<close>

fun fgt :: "pyfloat \<Rightarrow> rat \<Rightarrow> bool" where
  "fgt (Fin x) c = (c < x)"
| "fgt PInf c = True"
| "fgt NInf c = False"
| "fgt NaN c = False"

definition is_digit :: "char \<Rightarrow> bool" where
  "is_digit c = (c \<in> set ''0123456789'')"

definition is_lower :: "char \<Rightarrow> bool" where
  "is_lower c = (c \<in> set ''abcdefghijklmnopqrstuvwxyz'')"

definition is_sign :: "char \<Rightarrow> bool" where
  "is_sign c = (c = CHR ''-'' \<or> c = CHR ''+'')"

definition is_exp :: "char \<Rightarrow> bool" where
  "is_exp c = (c = CHR ''e'' \<or> c = CHR ''E'')"

text \<open>\<^verbatim>\<open>s.strip('#')\<close>: every leading and every trailing \<^verbatim>\<open>#\<close> is removed.\<close>

definition strip_hash :: "string \<Rightarrow> string" where
  "strip_hash s =
     rev (dropWhile (\<lambda>c. c = CHR ''#'') (rev (dropWhile (\<lambda>c. c = CHR ''#'') s)))"

text \<open>\<^verbatim>\<open>s.find(sub) >= 0\<close>: the substring test.\<close>

fun str_contains :: "string \<Rightarrow> string \<Rightarrow> bool" where
  "str_contains sub [] = (sub = [])"
| "str_contains sub (c # cs) = (take (length sub) (c # cs) = sub \<or> str_contains sub cs)"

text \<open>
  In a Python pattern \<^verbatim>\<open>$\<close> matches at the end of the string and also just before
  a newline that ends the string.
\<close>

definition drop_final_newline :: "string \<Rightarrow> string" where
  "drop_final_newline s = (if s \<noteq> [] \<and> last s = CHR 0x0A then butlast s else s)"

text \<open>
  \<^verbatim>\<open>re.search(r'[0-9]{2}([a-z]+)$', s) is not None\<close>. The search is not anchored at
  the start: the string has to end with two digits followed by a non-empty run of
  lower-case letters.
\<close>

definition cluster_re_match :: "string \<Rightarrow> bool" where
  "cluster_re_match s =
     (let r = rev (drop_final_newline s);
          letters = takeWhile is_lower r;
          before = dropWhile is_lower r
      in letters \<noteq> [] \<and> (case before of
            a # b # _ \<Rightarrow> is_digit a \<and> is_digit b
          | _ \<Rightarrow> False))"

text \<open>
  \<^verbatim>\<open>re.search(r'^[-+]?[0-9]*\.?[0-9]+([eE]+[-+]?[0-9]+)$', s) is not None\<close>. What
  follows the mantissa is an \<^verbatim>\<open>e\<close>, so the mantissa takes every digit and the dot
  that stand before it, and the match is deterministic.
\<close>

definition drop_sign :: "string \<Rightarrow> string" where
  "drop_sign s = (case s of [] \<Rightarrow> [] | c # cs \<Rightarrow> if is_sign c then cs else s)"

definition after_mantissa :: "string \<Rightarrow> string option" where
  "after_mantissa s =
     (let ds = takeWhile is_digit s; r = dropWhile is_digit s
      in case r of
           [] \<Rightarrow> (if ds = [] then None else Some r)
         | c # cs \<Rightarrow>
             if c = CHR ''.'' then
               (if takeWhile is_digit cs = [] then None else Some (dropWhile is_digit cs))
             else if ds = [] then None else Some r)"

definition sci_re_match :: "string \<Rightarrow> bool" where
  "sci_re_match s =
     (case after_mantissa (drop_sign s) of
        None \<Rightarrow> False
      | Some r \<Rightarrow>
          takeWhile is_exp r \<noteq> [] \<and>
          (let e = drop_sign (dropWhile is_exp r)
           in takeWhile is_digit e \<noteq> [] \<and>
              (dropWhile is_digit e = [] \<or> dropWhile is_digit e = [CHR 0x0A])))"

text \<open>\<^verbatim>\<open>str(n)\<close> for an integer.\<close>

function str_nat :: "nat \<Rightarrow> string" where
  "str_nat n =
     (if n < 10 then [''0123456789'' ! n]
      else str_nat (n div 10) @ [''0123456789'' ! (n mod 10)])"
  by pat_completeness auto
termination
  by (relation "measure id") auto

declare str_nat.simps [simp del]

definition str_int :: "int \<Rightarrow> string" where
  "str_int i = (if i < 0 then CHR ''-'' # str_nat (nat (- i)) else str_nat (nat i))"

section \<open>Constants of the drawer\<close>

definition COLORS :: "(string \<times> string) list" where
  "COLORS =
     [(''is'', ''#000000''), (''b-'', ''#62aeff''), (''2b-'', ''#62aeff''),
      (''b+'', ''#ff7e75''), (''ec'', ''#ff7e75''), (''2ec'', ''#ff7e75''),
      (''a'', ''#fffe49''), (''sf'', ''#5cbc57''), (''p'', ''#ffa425''),
      (''2p'', ''#ffa425''), (''n'', ''#9fd7ff''), (''2n'', ''#9fd7ff''),
      (''it'', ''#ffffff''), (''cluster'', ''#a564cc''), (''?'', ''#cccccc'')]"

text \<open>
  \<^verbatim>\<open>COLORS[k]\<close>. Every lookup of the source is made with a literal key of the table
  or under a test that the key is a basic mode or \<^verbatim>\<open>'it'\<close>, so no \<^verbatim>\<open>KeyError\<close>
  arises (lemma \<open>color_of_accepted\<close> below).
\<close>

definition color_of :: "string \<Rightarrow> string" where
  "color_of k = the (map_of COLORS k)"

definition FONT_COLOR_DARK :: string where
  "FONT_COLOR_DARK = ''#000000''"

definition FONT_COLOR_BRIGHT :: string where
  "FONT_COLOR_BRIGHT = ''#aaaaaa''"

definition SIZE_FONT :: int where
  "SIZE_FONT = 7"

definition SIZE_FONT_HL :: int where
  "SIZE_FONT_HL = 5"

definition basic_decay_modes :: "string list" where
  "basic_decay_modes =
     [''is'', ''a'', ''b-'', ''b+'', ''ec'', ''p'', ''2p'', ''sf'', ''n'', ''2n'', ''2ec'', ''2b-'']"

text \<open>The modes accepted in the first and second position of an isomer (lines 622, 640).\<close>

definition isomer_decay_modes :: "string list" where
  "isomer_decay_modes = basic_decay_modes @ [''it'']"

definition genuine_units :: "string list" where
  "genuine_units =
     [''d'', ''h'', ''m'', ''s'', ''Yy'', ''Zy'', ''Ey'', ''Py'', ''Ty'', ''Gy'', ''My'', ''ky'', ''y'']"

section \<open>The primary decay mode (lines 444 to 462)\<close>

text \<open>
  The \<^verbatim>\<open>for ... else\<close> loop looks for the first basic mode from index 1 on.
\<close>

fun find_basic :: "decay_mode list \<Rightarrow> nat \<Rightarrow> nat option" where
  "find_basic [] i = None"
| "find_basic (d # ds) i =
     (if mode d \<in> set basic_decay_modes then Some i else find_basic ds (Suc i))"

text \<open>
  The result is the exception raised by \<^verbatim>\<open>decay_modes[0]\<close> on an empty list, or
  \<open>None\<close> for the two \<^verbatim>\<open>return\<close> statements, or the list after the swap together with
  the primary colour.
\<close>

definition primary_pass ::
  "args \<Rightarrow> decay_mode list \<Rightarrow> py_error + (decay_mode list \<times> string) option" where
  "primary_pass ar dms =
     (case dms of
        [] \<Rightarrow> Inl IndexError
      | d0 # rest \<Rightarrow>
          if mode d0 \<in> set basic_decay_modes then Inr (Some (dms, color_of (mode d0)))
          else if mode d0 = ''?'' \<and> args_unknown ar then Inr (Some (dms, color_of ''?''))
          else if length dms > 1 then
            (case find_basic rest 1 of
               None \<Rightarrow> Inr None
             | Some i \<Rightarrow>
                 let swapped = dms[0 := dms ! i, i := dms ! 0]
                 in Inr (Some (swapped, color_of (mode (swapped ! 0)))))
          else Inr None)"

section \<open>Secondary and tertiary decay modes (lines 477 to 515 and 615 to 676)\<close>

text \<open>
  One iteration of the secondary loop per list element. The state is
  (\<^verbatim>\<open>secondary_color\<close>, \<^verbatim>\<open>secondary_size\<close>), \<open>None\<close> for an unbound variable and for
  the value \<^verbatim>\<open>None\<close>. A \<^verbatim>\<open>ValueError\<close> of \<^verbatim>\<open>float\<close> leaves the state as it is and
  continues; the branch of a basic mode has no \<^verbatim>\<open>break\<close>, the cluster branch has one.
  The list \<open>accepted\<close> is \<open>basic_decay_modes\<close> for the ground state and
  \<open>isomer_decay_modes\<close> for an isomer.
\<close>

fun secondary_scan ::
  "builtins \<Rightarrow> string list \<Rightarrow> string \<Rightarrow> decay_mode list \<Rightarrow>
   string option \<times> tri_size option \<Rightarrow> string option \<times> tri_size option" where
  "secondary_scan py accepted pc [] st = st"
| "secondary_scan py accepted pc (d # ds) st =
     (if mode d \<in> set accepted then
        (case py_float py (strip_hash (dm_value d)) of
           None \<Rightarrow> secondary_scan py accepted pc ds st
         | Some v \<Rightarrow>
             secondary_scan py accepted pc ds
               (Some (color_of (mode d)),
                if fgt v 5 \<and> pc \<noteq> color_of ''is'' then Some Large
                else if fgt v 0 then Some Small
                else snd st))
      else if cluster_re_match (mode d) then (Some (color_of ''cluster''), Some Small)
      else secondary_scan py accepted pc ds st)"

text \<open>
  The tertiary loop stops at the first basic mode whose value parses. Its colour and
  its size \<^verbatim>\<open>'small'\<close> are assigned together, so the result is the colour, if any.
\<close>

fun tertiary_scan :: "builtins \<Rightarrow> decay_mode list \<Rightarrow> string option" where
  "tertiary_scan py [] = None"
| "tertiary_scan py (d # ds) =
     (if mode d \<in> set basic_decay_modes then
        (case py_float py (strip_hash (dm_value d)) of
           None \<Rightarrow> tertiary_scan py ds
         | Some v \<Rightarrow> if fgt v 0 then Some (color_of (mode d)) else None)
      else if cluster_re_match (mode d) then Some (color_of ''cluster'')
      else tertiary_scan py ds)"

section \<open>Emitted drawing calls\<close>

text \<open>
  The drawing functions append to the layers of one global document. The model lists
  the calls in the order in which they are made, with the exception that ended them,
  if any.
\<close>

type_synonym emitted = "draw list \<times> py_error option"

fun seq_all :: "emitted list \<Rightarrow> emitted" where
  "seq_all [] = ([], None)"
| "seq_all ((ops, Some e) # rest) = (ops, Some e)"
| "seq_all ((ops, None) # rest) = (ops @ fst (seq_all rest), snd (seq_all rest))"

text \<open>The corner of the secondary triangle (lines 520 to 543 and 684 to 707).\<close>

definition secondary_corner :: "tri_size \<Rightarrow> string \<Rightarrow> string \<Rightarrow> corner" where
  "secondary_corner sz sc pc =
     (case sz of
        Large \<Rightarrow>
          if sc = color_of ''a'' then LT
          else if sc = color_of ''b+'' \<and> pc \<noteq> color_of ''a'' \<and> pc \<noteq> color_of ''p'' then LT
          else RB
      | Small \<Rightarrow>
          if sc = color_of ''a'' then LT
          else if sc = color_of ''b+'' \<and> pc \<noteq> color_of ''a'' \<and> pc \<noteq> color_of ''p'' then LT
          else if sc = color_of ''cluster'' then RT
          else RB)"

text \<open>
  The isomer branch draws its large triangle with \<^verbatim>\<open>_draw_triangle\<close> and its small
  ones with \<^verbatim>\<open>_draw_small_isomer_triangle\<close>.
\<close>

definition secondary_ops ::
  "bool \<Rightarrow> string \<Rightarrow> string option \<Rightarrow> tri_size option \<Rightarrow> emitted" where
  "secondary_ops ism pc sc sz =
     (case sz of
        None \<Rightarrow> ([], None)
      | Some s \<Rightarrow>
          (case sc of
             None \<Rightarrow> ([], Some UnboundLocalError)
           | Some c \<Rightarrow>
               (case s of
                  Large \<Rightarrow> ([DrawTriangle c (secondary_corner Large c pc)], None)
                | Small \<Rightarrow>
                    ([(if ism then DrawSmallIsomerTriangle else DrawSmallTriangle) c
                        (secondary_corner Small c pc)], None))))"

text \<open>
  The corner of the tertiary triangle (lines 545 to 557 and 709 to 721). The secondary
  colour is read only when the first two conjuncts hold.
\<close>

definition tertiary_corner :: "string \<Rightarrow> string \<Rightarrow> string option \<Rightarrow> py_error + corner" where
  "tertiary_corner tc pc sc =
     (let others = (if tc = color_of ''cluster'' then RT else RB)
      in if tc = color_of ''a'' then Inr LT
         else if tc = color_of ''b+'' \<and> pc \<noteq> color_of ''a'' then
           (case sc of
              None \<Rightarrow> Inl UnboundLocalError
            | Some c \<Rightarrow> if c \<noteq> color_of ''a'' then Inr LT else Inr others)
         else Inr others)"

definition tertiary_ops :: "bool \<Rightarrow> string \<Rightarrow> string option \<Rightarrow> string option \<Rightarrow> emitted" where
  "tertiary_ops ism pc sc tc =
     (case tc of
        None \<Rightarrow> ([], None)
      | Some t \<Rightarrow>
          (case tertiary_corner t pc sc of
             Inl e \<Rightarrow> ([], Some e)
           | Inr k \<Rightarrow> ([(if ism then DrawSmallIsomerTriangle else DrawSmallTriangle) t k], None)))"

text \<open>
  Secondary and tertiary marker of a list of decay modes: the two loops with their
  guards on the length of the list. \<open>sc0\<close> is what \<^verbatim>\<open>secondary_color\<close> is bound to
  before the loops (nothing in the ground state). The result is the secondary colour,
  the secondary size and the tertiary colour.
\<close>

definition classify_markers ::
  "builtins \<Rightarrow> string list \<Rightarrow> string \<Rightarrow> decay_mode list \<Rightarrow> string option \<Rightarrow>
   string option \<times> tri_size option \<times> string option" where
  "classify_markers py accepted pc dms sc0 =
     (if length dms > 1 then
        (let st = secondary_scan py accepted pc (drop 1 dms) (sc0, None);
             tc = (if length dms > 2 \<and>
                      (snd st = Some Large \<or> (snd st = Some Small \<and> pc = color_of ''is''))
                   then tertiary_scan py (drop 2 dms) else None)
         in (fst st, snd st, tc))
      else (sc0, None, None))"

section \<open>Half-life texts\<close>

text \<open>
  Lines 739 to 745 and 791 to 797: a value in scientific notation is reformatted. Only
  \<^verbatim>\<open>TypeError\<close> is caught there, so a \<^verbatim>\<open>ValueError\<close> of \<^verbatim>\<open>float\<close> escapes.
\<close>

definition sci_format :: "builtins \<Rightarrow> string \<Rightarrow> py_error + string" where
  "sci_format py s =
     (if sci_re_match s then
        (case py_float py s of
           None \<Rightarrow> Inl ValueError
         | Some v \<Rightarrow> Inr (py_format_1e py v))
      else Inr s)"

text \<open>The half-life text of the normal branch (lines 789 to 803).\<close>

definition half_life_string ::
  "builtins \<Rightarrow> decay_mode list \<Rightarrow> half_life \<Rightarrow> string \<Rightarrow> py_error + string" where
  "half_life_string py dms hl pc =
     (if pc \<noteq> color_of ''is'' then
        (case sci_format py (hl_value hl) of
           Inl e \<Rightarrow> Inl e
         | Inr s \<Rightarrow>
             if hl_value hl \<noteq> ''?'' then
               (let s1 = s @ '' '' @ hl_unit hl
                in if hl_relation hl \<noteq> ''='' then Inr (hl_relation hl @ '' '' @ s1)
                   else Inr s1)
             else Inr s)
      else
        (case dms of
           [] \<Rightarrow> Inl IndexError
         | d # _ \<Rightarrow> Inr (dm_value d @ ''%'')))"

text \<open>
  The two ground-state captions of the isomer branch (lines 738 to 753):
  \<^verbatim>\<open>half_life_string\<close> and \<^verbatim>\<open>half_life_unit\<close>; the second is not assigned when the
  value is \<^verbatim>\<open>'?'\<close>.
\<close>

definition isomer_ground_captions ::
  "builtins \<Rightarrow> decay_mode list \<Rightarrow> half_life \<Rightarrow> py_error + (string \<times> string option)" where
  "isomer_ground_captions py dms hl =
     (case sci_format py (hl_value hl) of
        Inl e \<Rightarrow> Inl e
      | Inr s \<Rightarrow>
          if hl_value hl \<noteq> ''?'' then
            (if hl_relation hl \<noteq> ''='' then Inr (hl_relation hl, Some (hl_value hl))
             else Inr (s, Some (hl_unit hl)))
          else
            (case dms of
               [] \<Rightarrow> Inl IndexError
             | d # _ \<Rightarrow> Inr (dm_value d @ ''%'', None)))"

definition element_name :: "nuclide \<Rightarrow> string" where
  "element_name nuc = ''$*'' @ str_int (nuc_A nuc) @ ''*$'' @ element nuc"

section \<open>The isomer branch (lines 560 to 759)\<close>

definition is_genuine :: "isomer \<Rightarrow> bool" where
  "is_genuine ism =
     (hl_relation (iso_half_life ism) = ''='' \<and>
      hl_unit (iso_half_life ism) \<in> set genuine_units)"

text \<open>
  Lines 617 to 627: the first decay mode of the isomer sets the colour of the inset
  when it is a basic mode or \<^verbatim>\<open>'it'\<close> and its value parses.
\<close>

definition isomer_primary :: "builtins \<Rightarrow> string \<Rightarrow> decay_mode list \<Rightarrow> string" where
  "isomer_primary py ipc idms =
     (case idms of
        [] \<Rightarrow> ipc
      | d # _ \<Rightarrow>
          if mode d \<in> set basic_decay_modes \<or> mode d = ''it'' then
            (case py_float py (strip_hash (dm_value d)) of
               None \<Rightarrow> ipc
             | Some v \<Rightarrow> color_of (mode d))
          else ipc)"

definition caption_ops :: "builtins \<Rightarrow> nuclide \<Rightarrow> string \<Rightarrow> isomer \<Rightarrow> emitted" where
  "caption_ops py nuc fc ism =
     (case isomer_ground_captions py (decay_modes nuc) (half_life nuc) of
        Inl e \<Rightarrow> ([], Some e)
      | Inr (s, u) \<Rightarrow>
          (case u of
             None \<Rightarrow> ([DrawText GroundValueSlot fc (SIZE_FONT_HL - 2) s], Some UnboundLocalError)
           | Some un \<Rightarrow>
               ([DrawText GroundValueSlot fc (SIZE_FONT_HL - 2) s,
                 DrawText GroundUnitSlot fc (SIZE_FONT_HL - 2) un,
                 DrawText IsomerValueSlot fc (SIZE_FONT_HL - 2) (hl_value (iso_half_life ism)),
                 DrawText IsomerUnitSlot fc (SIZE_FONT_HL - 2) (hl_unit (iso_half_life ism))],
                None)))"

text \<open>
  The body of the loop for one genuine isomer. \<^verbatim>\<open>isomer_primary_color\<close> and
  \<^verbatim>\<open>isomer_secondary_color\<close> keep their bindings from one iteration to the next;
  they are the state of the loop.
\<close>

definition isomer_body ::
  "builtins \<Rightarrow> nuclide \<Rightarrow> string \<Rightarrow> string \<times> string option \<Rightarrow> isomer \<Rightarrow>
   (string \<times> string option) \<times> emitted" where
  "isomer_body py nuc fc st ism =
     (let idms = iso_decay_modes ism;
          ipc = isomer_primary py (fst st) idms;
          m = classify_markers py isomer_decay_modes ipc idms (snd st)
      in ((ipc, fst m),
          seq_all
            [secondary_ops True ipc (fst m) (fst (snd m)),
             tertiary_ops True ipc (fst m) (snd (snd m)),
             ([DrawIsomerRectangle ipc, DrawIsomerLine], None),
             caption_ops py nuc fc ism]))"

text \<open>The loop over \<^verbatim>\<open>nuclide.isomers\<close> (line 588); it has no \<^verbatim>\<open>break\<close>.\<close>

fun isomer_loop ::
  "builtins \<Rightarrow> nuclide \<Rightarrow> string \<Rightarrow> string \<times> string option \<Rightarrow> isomer list \<Rightarrow> emitted" where
  "isomer_loop py nuc fc st [] = ([], None)"
| "isomer_loop py nuc fc st (ism # rest) =
     (if is_genuine ism then
        seq_all
          [snd (isomer_body py nuc fc st ism),
           isomer_loop py nuc fc (fst (isomer_body py nuc fc st ism)) rest]
      else isomer_loop py nuc fc st rest)"

section \<open>The normal branch (lines 769 to 810)\<close>

definition normal_ops :: "builtins \<Rightarrow> nuclide \<Rightarrow> args \<Rightarrow> string \<Rightarrow> string \<Rightarrow> emitted" where
  "normal_ops py nuc ar pc fc =
     seq_all
       [(if args_names ar then [DrawText NameSlot fc SIZE_FONT (element_name nuc)] else [], None),
        if args_halflives ar \<and> hl_extrapolated (half_life nuc) \<noteq> ''True'' then
          (case half_life_string py (decay_modes nuc) (half_life nuc) pc of
             Inl e \<Rightarrow> ([], Some e)
           | Inr s \<Rightarrow> ([DrawText HalfLifeSlot fc SIZE_FONT_HL s], None))
        else ([], None)]"

section \<open>draw_nuclide\<close>

text \<open>
  Everything after the test for \<^verbatim>\<open>'unstable'\<close> (lines 477 to 810); \<open>nuc\<close> holds the
  decay modes as the primary pass left them and \<open>pc\<close> is the primary colour.
\<close>

definition font_color :: "string \<Rightarrow> string" where
  "font_color pc = (if pc = color_of ''is'' then FONT_COLOR_BRIGHT else FONT_COLOR_DARK)"

definition render :: "builtins \<Rightarrow> nuclide \<Rightarrow> args \<Rightarrow> bool \<Rightarrow> string \<Rightarrow> emitted" where
  "render py nuc ar is_isomer pc =
     (let m = classify_markers py basic_decay_modes pc (decay_modes nuc) None;
          fc = font_color pc
      in seq_all
           [([DrawRectangle pc], None),
            secondary_ops False pc (fst m) (fst (snd m)),
            tertiary_ops False pc (fst m) (snd (snd m)),
            if args_isomers ar \<and> is_isomer then
              (if args_names ar then
                 seq_all
                   [([DrawText IsomerNameSlot fc (SIZE_FONT - 2) (element_name nuc)], None),
                    isomer_loop py nuc fc (pc, None) (isomers nuc)]
               else ([], None))
            else normal_ops py nuc ar pc fc])"

text \<open>
  The result of a call: \<^verbatim>\<open>nuclide.decay_modes\<close> as the call leaves it (the swap is
  made in place), the drawing calls made, and the exception that escaped, if any.
\<close>

record result =
  res_modes :: "decay_mode list"
  res_ops :: "draw list"
  res_err :: "py_error option"

definition draw_nuclide :: "builtins \<Rightarrow> nuclide \<Rightarrow> args \<Rightarrow> bool \<Rightarrow> result" where
  "draw_nuclide py nuc ar is_isomer =
     (case primary_pass ar (decay_modes nuc) of
        Inl e \<Rightarrow> \<lparr>res_modes = decay_modes nuc, res_ops = [], res_err = Some e\<rparr>
      | Inr None \<Rightarrow> \<lparr>res_modes = decay_modes nuc, res_ops = [], res_err = None\<rparr>
      | Inr (Some (dms, pc)) \<Rightarrow>
          if str_contains ''unstable'' (hl_value (half_life nuc)) then
            \<lparr>res_modes = dms, res_ops = [], res_err = None\<rparr>
          else
            (let out = render py (nuc\<lparr>decay_modes := dms\<rparr>) ar is_isomer pc
             in \<lparr>res_modes = dms, res_ops = fst out, res_err = snd out\<rparr>))"

text \<open>
  The flag \<^verbatim>\<open>is_isomer\<close> that the main loop computes before the call (lines 1019 and
  1039 to 1052): set as soon as one isomer is genuine.
\<close>

fun main_is_isomer :: "isomer list \<Rightarrow> bool \<Rightarrow> bool" where
  "main_is_isomer [] b = b"
| "main_is_isomer (ism # rest) b = main_is_isomer rest (if is_genuine ism then True else b)"

section \<open>Builtins for the examples\<close>

text \<open>
  The examples below use branching ratios and half-lives written as short unsigned
  decimals (\<^verbatim>\<open>'97'\<close>, \<^verbatim>\<open>'5.0'\<close>), on which \<^verbatim>\<open>float\<close> compares with 0 and 5 as the
  decimal value does; \<open>decimal_float\<close> reads these and nothing else. No example has a
  half-life in scientific notation, so the formatter is never called there.
\<close>

definition digits_value :: "string \<Rightarrow> nat" where
  "digits_value ds = foldl (\<lambda>n c. 10 * n + (of_char c - 48)) 0 ds"

definition decimal_float :: "string \<Rightarrow> pyfloat option" where
  "decimal_float s =
     (let ip = takeWhile is_digit s; r = dropWhile is_digit s
      in case r of
           [] \<Rightarrow> (if ip = [] then None else Some (Fin (of_nat (digits_value ip))))
         | c # fp \<Rightarrow>
             if c = CHR ''.'' \<and> list_all is_digit fp \<and> (ip \<noteq> [] \<or> fp \<noteq> []) then
               Some (Fin (of_nat (digits_value (ip @ fp)) / 10 ^ length fp))
             else None)"

definition example_builtins :: builtins where
  "example_builtins = \<lparr>py_float = decimal_float, py_format_1e = (\<lambda>v. ''1.0e+00'')\<rparr>"

definition all_enabled :: args where
  "all_enabled =
     \<lparr>args_unknown = True, args_isomers = True, args_names = True, args_halflives = True\<rparr>"

definition dm :: "string \<Rightarrow> string \<Rightarrow> decay_mode" where
  "dm m v = \<lparr>mode = m, dm_value = v\<rparr>"

definition hl :: "string \<Rightarrow> string \<Rightarrow> string \<Rightarrow> string \<Rightarrow> half_life" where
  "hl v u r x = \<lparr>hl_value = v, hl_unit = u, hl_relation = r, hl_extrapolated = x\<rparr>"

definition example_nuclide :: "decay_mode list \<Rightarrow> half_life \<Rightarrow> isomer list \<Rightarrow> nuclide" where
  "example_nuclide dms h isos =
     \<lparr>nuc_A = 100, element = ''Sn'', decay_modes = dms, half_life = h, isomers = isos\<rparr>"

section \<open>Observations on the drawing calls\<close>

text \<open>The texts drawn at one place, in the order of the calls.\<close>

fun texts_at :: "text_slot \<Rightarrow> draw list \<Rightarrow> string list" where
  "texts_at k [] = []"
| "texts_at k (DrawText s c n t # ops) = (if s = k then t # texts_at k ops else texts_at k ops)"
| "texts_at k (_ # ops) = texts_at k ops"

text \<open>
  The triangles drawn for a result of \<open>classify_markers\<close>, in the ground state
  (\<open>inset = False\<close>) or for an isomer.
\<close>

definition marker_ops ::
  "bool \<Rightarrow> string \<Rightarrow> string option \<times> tri_size option \<times> string option \<Rightarrow> draw list" where
  "marker_ops inset pc m =
     fst (secondary_ops inset pc (fst m) (fst (snd m))) @
     fst (tertiary_ops inset pc (fst m) (snd (snd m)))"

section \<open>Facts about the primary pass\<close>

lemma color_values:
  "color_of ''is'' = ''#000000''" "color_of ''a'' = ''#fffe49''" "color_of ''b+'' = ''#ff7e75''"
  "color_of ''p'' = ''#ffa425''" "color_of ''cluster'' = ''#a564cc''" "color_of ''?'' = ''#cccccc''"
  "color_of ''b-'' = ''#62aeff''" "color_of ''sf'' = ''#5cbc57''" "color_of ''it'' = ''#ffffff''"
  by (simp_all add: color_of_def COLORS_def)

lemma color_of_accepted:
  "m \<in> set isomer_decay_modes \<Longrightarrow> map_of COLORS m \<noteq> None"
  by (auto simp: isomer_decay_modes_def basic_decay_modes_def COLORS_def)

lemma find_basic_None: "(find_basic ds k = None) = (\<forall>d \<in> set ds. mode d \<notin> set basic_decay_modes)"
  by (induction ds arbitrary: k) auto

lemma find_basic_Some:
  "find_basic ds k = Some i \<Longrightarrow>
     k \<le> i \<and> i < k + length ds \<and> mode (ds ! (i - k)) \<in> set basic_decay_modes \<and>
     (\<forall>j < i - k. mode (ds ! j) \<notin> set basic_decay_modes)"
proof (induction ds arbitrary: k)
  case Nil
  then show ?case by simp
next
  case (Cons d ds)
  show ?case
  proof (cases "mode d \<in> set basic_decay_modes")
    case True
    with Cons.prems show ?thesis by simp
  next
    case False
    with Cons.prems have s: "find_basic ds (Suc k) = Some i" by simp
    from Cons.IH [OF s] have ih: "Suc k \<le> i" "i < Suc k + length ds"
      "mode (ds ! (i - Suc k)) \<in> set basic_decay_modes"
      "\<forall>j < i - Suc k. mode (ds ! j) \<notin> set basic_decay_modes" by auto
    have e: "i - k = Suc (i - Suc k)" using ih(1) by arith
    show ?thesis using ih False e by (auto simp: nth_Cons split: nat.splits)
  qed
qed

lemma find_basic_first:
  assumes "k \<le> i" "i < k + length ds" "mode (ds ! (i - k)) \<in> set basic_decay_modes"
    "\<forall>j < i - k. mode (ds ! j) \<notin> set basic_decay_modes"
  shows "find_basic ds k = Some i"
proof (cases "find_basic ds k")
  case None
  then show ?thesis using assms by (auto simp: find_basic_None)
next
  case (Some i')
  from find_basic_Some [OF Some] have h: "k \<le> i'" "i' < k + length ds"
    "mode (ds ! (i' - k)) \<in> set basic_decay_modes"
    "\<forall>j < i' - k. mode (ds ! j) \<notin> set basic_decay_modes" by auto
  have "\<not> i' - k < i - k" using h(3) assms(4) by auto
  moreover have "\<not> i - k < i' - k" using h(4) assms(3) by auto
  ultimately have "i = i'" using h(1) assms(1) by arith
  then show ?thesis using Some by simp
qed

lemma primary_pass_basic:
  "mode d0 \<in> set basic_decay_modes \<Longrightarrow>
     primary_pass ar (d0 # rest) = Inr (Some (d0 # rest, color_of (mode d0)))"
  by (simp add: primary_pass_def)

lemma primary_pass_swap:
  assumes "mode d0 \<notin> set basic_decay_modes" "\<not> (mode d0 = ''?'' \<and> args_unknown ar)"
    "find_basic rest 1 = Some i"
  shows "primary_pass ar (d0 # rest) =
     Inr (Some ((rest ! (i - 1)) # rest[i - 1 := d0], color_of (mode (rest ! (i - 1)))))"
proof -
  from find_basic_Some [OF assms(3)] have i: "1 \<le> i" "i < 1 + length rest" by auto
  then obtain j where j: "i = Suc j" "j < length rest" by (cases i) auto
  have "rest \<noteq> []" using j by auto
  then show ?thesis using assms j
    by (auto simp: primary_pass_def Let_def)
qed

lemma primary_pass_skip:
  assumes "mode d0 \<notin> set basic_decay_modes" "\<not> (mode d0 = ''?'' \<and> args_unknown ar)"
    "find_basic rest 1 = None"
  shows "primary_pass ar (d0 # rest) = Inr None"
  using assms by (auto simp: primary_pass_def)

lemma primary_pass_idem:
  assumes "primary_pass ar xs = Inr (Some (dms, pc))"
  shows "primary_pass ar dms = Inr (Some (dms, pc))"
proof (cases xs)
  case Nil
  with assms show ?thesis by (simp add: primary_pass_def)
next
  case (Cons d0 rest)
  show ?thesis
  proof (cases "mode d0 \<in> set basic_decay_modes")
    case True
    with assms Cons show ?thesis by (auto simp: primary_pass_def)
  next
    case nb: False
    show ?thesis
    proof (cases "mode d0 = ''?'' \<and> args_unknown ar")
      case True
      with assms Cons nb show ?thesis by (auto simp: primary_pass_def)
    next
      case nq: False
      show ?thesis
      proof (cases "find_basic rest 1")
        case None
        from primary_pass_skip [OF nb nq None] assms Cons show ?thesis by simp
      next
        case (Some i)
        from find_basic_Some [OF Some] have b: "mode (rest ! (i - 1)) \<in> set basic_decay_modes"
          by simp
        from primary_pass_swap [OF nb nq Some] assms Cons
        have "dms = (rest ! (i - 1)) # rest[i - 1 := d0]" "pc = color_of (mode (rest ! (i - 1)))"
          by auto
        then show ?thesis using b by (simp add: primary_pass_basic)
      qed
    qed
  qed
qed

lemma draw_nuclide_idem:
  "draw_nuclide py (nuc\<lparr>decay_modes := res_modes (draw_nuclide py nuc ar f)\<rparr>) ar f =
     draw_nuclide py nuc ar f"
proof (cases "primary_pass ar (decay_modes nuc)")
  case (Inl e)
  then show ?thesis by (simp add: draw_nuclide_def)
next
  case (Inr r)
  show ?thesis
  proof (cases r)
    case None
    with Inr show ?thesis by (simp add: draw_nuclide_def)
  next
    case (Some p)
    obtain dms pc where p: "p = (dms, pc)" by (cases p)
    from Inr Some p have a: "primary_pass ar (decay_modes nuc) = Inr (Some (dms, pc))" by simp
    note b = primary_pass_idem [OF a]
    show ?thesis using a b by (simp add: draw_nuclide_def Let_def)
  qed
qed

section \<open>Facts about the drawing calls\<close>

lemma texts_at_append: "texts_at k (xs @ ys) = texts_at k xs @ texts_at k ys"
  by (induction k xs rule: texts_at.induct) auto

lemma seq_all_single: "seq_all [a] = a"
  by (cases a; cases "snd a") auto

lemma seq_all_ok:
  "snd a = None \<Longrightarrow> seq_all (a # rest) = (fst a @ fst (seq_all rest), snd (seq_all rest))"
  by (cases a) auto


text \<open>
  A size is assigned only after the colour, and the tertiary loop runs only when a
  size is set: the triangles never read an unbound colour.
\<close>

lemma secondary_scan_bound:
  "(snd st \<noteq> None \<longrightarrow> fst st \<noteq> None) \<Longrightarrow>
     snd (secondary_scan py accepted pc ds st) \<noteq> None \<longrightarrow>
     fst (secondary_scan py accepted pc ds st) \<noteq> None"
  by (induction ds arbitrary: st) (auto split: option.splits)

lemma tertiary_needs_secondary:
  "snd (snd (classify_markers py accepted pc dms sc0)) \<noteq> None \<Longrightarrow>
     fst (snd (classify_markers py accepted pc dms sc0)) \<noteq> None"
  by (auto simp: classify_markers_def Let_def split: if_splits)

lemma classify_markers_bound:
  "fst (snd (classify_markers py accepted pc dms sc0)) \<noteq> None \<Longrightarrow>
     fst (classify_markers py accepted pc dms sc0) \<noteq> None"
  using secondary_scan_bound [of "(sc0, None)" py accepted pc "drop 1 dms"]
  by (auto simp: classify_markers_def Let_def split: if_splits)

lemma secondary_ops_no_error:
  "(sz \<noteq> None \<longrightarrow> sc \<noteq> None) \<Longrightarrow> snd (secondary_ops b pc sc sz) = None"
  by (auto simp: secondary_ops_def split: option.splits tri_size.splits)

lemma tertiary_ops_no_error:
  "(tc \<noteq> None \<longrightarrow> sc \<noteq> None) \<Longrightarrow> snd (tertiary_ops b pc sc tc) = None"
  by (auto simp: tertiary_ops_def tertiary_corner_def Let_def split: option.splits sum.splits)

lemma markers_no_error:
  "snd (secondary_ops b pc (fst (classify_markers py accepted pc dms sc0))
          (fst (snd (classify_markers py accepted pc dms sc0)))) = None"
  "snd (tertiary_ops b pc (fst (classify_markers py accepted pc dms sc0))
          (snd (snd (classify_markers py accepted pc dms sc0)))) = None"
proof -
  show "snd (secondary_ops b pc (fst (classify_markers py accepted pc dms sc0))
          (fst (snd (classify_markers py accepted pc dms sc0)))) = None"
    using classify_markers_bound by (intro secondary_ops_no_error) blast
  show "snd (tertiary_ops b pc (fst (classify_markers py accepted pc dms sc0))
          (snd (snd (classify_markers py accepted pc dms sc0)))) = None"
    using classify_markers_bound tertiary_needs_secondary
    by (intro tertiary_ops_no_error) blast
qed

lemma texts_at_marker_ops: "texts_at k (marker_ops b pc m) = []"
  by (auto simp: marker_ops_def texts_at_append secondary_ops_def tertiary_ops_def
      split: option.splits tri_size.splits sum.splits)

text \<open>
  The three ways through the second half of \<^verbatim>\<open>draw_nuclide\<close>: the normal branch,
  the isomer branch with names, and the isomer branch without names, which draws nothing
  more.
\<close>

lemma render_normal:
  assumes "\<not> (args_isomers ar \<and> f)"
  shows "render py nuc ar f pc =
     (DrawRectangle pc #
        marker_ops False pc (classify_markers py basic_decay_modes pc (decay_modes nuc) None) @
        fst (normal_ops py nuc ar pc (font_color pc)),
      snd (normal_ops py nuc ar pc (font_color pc)))"
  using assms by (auto simp: render_def Let_def seq_all_ok seq_all_single marker_ops_def markers_no_error)



lemma draw_nuclide_drawn:
  assumes "primary_pass ar (decay_modes nuc) = Inr (Some (dms, pc))"
    and "\<not> str_contains ''unstable'' (hl_value (half_life nuc))"
  shows "draw_nuclide py nuc ar f =
     \<lparr>res_modes = dms,
      res_ops = fst (render py (nuc\<lparr>decay_modes := dms\<rparr>) ar f pc),
      res_err = snd (render py (nuc\<lparr>decay_modes := dms\<rparr>) ar f pc)\<rparr>"
  using assms by (simp add: draw_nuclide_def Let_def)

lemma normal_ops_half_life:
  assumes "args_halflives ar" "hl_extrapolated (half_life nuc) \<noteq> ''True''"
    and "half_life_string py (decay_modes nuc) (half_life nuc) pc = Inr t"
  shows "texts_at HalfLifeSlot (fst (normal_ops py nuc ar pc fc)) = [t]"
    and "snd (normal_ops py nuc ar pc fc) = None"
  using assms by (simp_all add: normal_ops_def)

lemma draw_nuclide_half_life_text:
  assumes "primary_pass ar (decay_modes nuc) = Inr (Some (dms, pc))"
    and "\<not> str_contains ''unstable'' (hl_value (half_life nuc))"
    and "\<not> (args_isomers ar \<and> f)"
    and "args_halflives ar"
    and "hl_extrapolated (half_life nuc) \<noteq> ''True''"
    and "half_life_string py dms (half_life nuc) pc = Inr t"
  shows "texts_at HalfLifeSlot (res_ops (draw_nuclide py nuc ar f)) = [t] \<and>
         res_err (draw_nuclide py nuc ar f) = None"
proof -
  have "half_life_string py (decay_modes (nuc\<lparr>decay_modes := dms\<rparr>))
          (half_life (nuc\<lparr>decay_modes := dms\<rparr>)) pc = Inr t"
    using assms(6) by simp
  from normal_ops_half_life [OF assms(4) _ this, of "font_color pc"] assms(5)
  have "texts_at HalfLifeSlot (fst (normal_ops py (nuc\<lparr>decay_modes := dms\<rparr>) ar pc (font_color pc))) = [t]"
    "snd (normal_ops py (nuc\<lparr>decay_modes := dms\<rparr>) ar pc (font_color pc)) = None"
    by simp_all
  then show ?thesis
    using draw_nuclide_drawn [OF assms(1,2), of py f] render_normal [OF assms(3), of py "nuc\<lparr>decay_modes := dms\<rparr>" pc]
    by (simp add: texts_at_append texts_at_marker_ops)
qed

section \<open>Facts about the isomer loop\<close>




text \<open>
  With the half-life value \<^verbatim>\<open>'?'\<close> the isomer branch draws its first ground-state
  caption and then reads \<^verbatim>\<open>half_life_unit\<close>, which no statement has assigned.
\<close>

lemma caption_ops_unknown_half_life:
  assumes "hl_value (half_life nuc) = ''?''" and "decay_modes nuc = d # ds"
  shows "caption_ops py nuc fc ism =
           ([DrawText GroundValueSlot fc (SIZE_FONT_HL - 2) (dm_value d @ ''%'')],
            Some UnboundLocalError)"
proof -
  have "\<not> sci_re_match ''?''"
    by (simp add: sci_re_match_def after_mantissa_def drop_sign_def is_sign_def is_digit_def)
  then show ?thesis
    using assms by (simp add: caption_ops_def isomer_ground_captions_def sci_format_def)
qed

section \<open>Claims\<close>

subsection \<open>C1: the secondary marker\<close>

text \<open>
  Claim C1 says that the first qualifying entry after the primary one alone determines
  the secondary marker, and that later basic entries do not change it. The secondary
  loop of the source has no \<^verbatim>\<open>break\<close> on its basic-mode branch, unlike the tertiary
  loop. For alpha 90, beta-plus 7 the marker is the large red triangle of the beta-plus
  branch; with a third entry, fission 3, the call draws the small green triangle of the
  fission branch instead, and no tertiary marker.
\<close>

theorem C1_later_basic_entry_overrides:
  "classify_markers example_builtins basic_decay_modes (color_of ''a'')
     [dm ''a'' ''90'', dm ''b+'' ''7''] None = (Some ''#ff7e75'', Some Large, None) \<and>
   classify_markers example_builtins basic_decay_modes (color_of ''a'')
     [dm ''a'' ''90'', dm ''b+'' ''7'', dm ''sf'' ''3''] None = (Some ''#5cbc57'', Some Small, None) \<and>
   res_ops (draw_nuclide example_builtins
     (example_nuclide [dm ''a'' ''90'', dm ''b+'' ''7'', dm ''sf'' ''3''] (hl ''12.3'' ''y'' ''='' ''False'') [])
     all_enabled False) =
     [DrawRectangle ''#fffe49'', DrawSmallTriangle ''#5cbc57'' RB,
      DrawText NameSlot ''#000000'' 7 ''$*100*$Sn'', DrawText HalfLifeSlot ''#000000'' 5 ''12.3 y'']"
  by code_simp

subsection \<open>C2: the half-life text with a relation\<close>

text \<open>
  Claim C2, as amended. For a nuclide that is drawn, is not stable, and whose half-life
  value is not \<^verbatim>\<open>'?'\<close>, with \<open>s\<close> the value after the reformatting of scientific
  notation: in the normal branch (half-lives enabled, not extrapolated) the text is
  \<open>s\<close>, a blank and the unit when the relation is \<^verbatim>\<open>'='\<close>, and otherwise the
  relation, a blank, \<open>s\<close>, a blank and the unit: the unit is kept. Only the two
  ground-state captions of the isomer branch drop the unit: they are the relation and
  the value.
\<close>

theorem C2_relation_is_prefixed_and_unit_kept:
  assumes "primary_pass ar (decay_modes nuc) = Inr (Some (dms, pc))"
    and "\<not> str_contains ''unstable'' (hl_value (half_life nuc))"
    and "pc \<noteq> color_of ''is''"
    and "hl_value (half_life nuc) \<noteq> ''?''"
    and "sci_format py (hl_value (half_life nuc)) = Inr s"
  shows "(\<not> (args_isomers ar \<and> is_isomer) \<and> args_halflives ar \<and>
            hl_extrapolated (half_life nuc) \<noteq> ''True'' \<longrightarrow>
          texts_at HalfLifeSlot (res_ops (draw_nuclide py nuc ar is_isomer)) =
            [if hl_relation (half_life nuc) = ''=''
             then s @ '' '' @ hl_unit (half_life nuc)
             else hl_relation (half_life nuc) @ '' '' @ s @ '' '' @ hl_unit (half_life nuc)]) \<and>
         isomer_ground_captions py dms (half_life nuc) =
           Inr (if hl_relation (half_life nuc) = ''=''
                then (s, Some (hl_unit (half_life nuc)))
                else (hl_relation (half_life nuc), Some (hl_value (half_life nuc))))"
proof -
  let ?t = "if hl_relation (half_life nuc) = ''=''
             then s @ '' '' @ hl_unit (half_life nuc)
             else hl_relation (half_life nuc) @ '' '' @ s @ '' '' @ hl_unit (half_life nuc)"
  have h: "half_life_string py dms (half_life nuc) pc = Inr ?t"
    using assms(3,4,5) by (simp add: half_life_string_def Let_def)
  have c: "isomer_ground_captions py dms (half_life nuc) =
           Inr (if hl_relation (half_life nuc) = ''=''
                then (s, Some (hl_unit (half_life nuc)))
                else (hl_relation (half_life nuc), Some (hl_value (half_life nuc))))"
    using assms(4,5) by (simp add: isomer_ground_captions_def)
  show ?thesis
    using draw_nuclide_half_life_text [OF assms(1,2) _ _ _ h, of is_isomer] c by blast
qed

text \<open>
  A beta-minus emitter with half-life \<^verbatim>\<open>< 1 ms\<close>.
\<close>

theorem C2_witness:
  "texts_at HalfLifeSlot (res_ops (draw_nuclide example_builtins
      (example_nuclide [dm ''b-'' ''100''] (hl ''1'' ''ms'' ''<'' ''False'') [])
      all_enabled False)) = [''< 1 ms''] \<and>
   isomer_ground_captions example_builtins [dm ''b-'' ''100''] (hl ''1'' ''ms'' ''<'' ''False'') =
     Inr (''<'', Some ''1'')"
proof -
  let ?n = "example_nuclide [dm ''b-'' ''100''] (hl ''1'' ''ms'' ''<'' ''False'') []"
  have h1: "primary_pass all_enabled (decay_modes ?n) =
      Inr (Some ([dm ''b-'' ''100''], color_of ''b-''))"
    by (simp add: example_nuclide_def primary_pass_def dm_def basic_decay_modes_def)
  have h2: "\<not> str_contains ''unstable'' (hl_value (half_life ?n))"
    by (simp add: example_nuclide_def hl_def)
  have h3: "color_of ''b-'' \<noteq> color_of ''is''" by (simp add: color_values)
  have h4: "hl_value (half_life ?n) \<noteq> ''?''" by (simp add: example_nuclide_def hl_def)
  have h5: "sci_format example_builtins (hl_value (half_life ?n)) = Inr ''1''"
    by (simp add: example_nuclide_def hl_def sci_format_def sci_re_match_def after_mantissa_def
        drop_sign_def is_sign_def is_digit_def is_exp_def)
  show ?thesis
    using C2_relation_is_prefixed_and_unit_kept [OF h1 h2 h3 h4 h5, of False]
    by (simp add: example_nuclide_def hl_def all_enabled_def)
qed

text \<open>
  Claim C2 as stated fails there: the text drawn is \<^verbatim>\<open>< 1 ms\<close>, not the relation and
  the value alone.
\<close>

theorem C2_counterexample:
  "texts_at HalfLifeSlot (res_ops (draw_nuclide example_builtins
      (example_nuclide [dm ''b-'' ''100''] (hl ''1'' ''ms'' ''<'' ''False'') [])
      all_enabled False)) = [''< 1 ms''] \<and>
   ''< 1 ms'' \<noteq> hl_relation (hl ''1'' ''ms'' ''<'' ''False'') @ '' '' @
                  hl_value (hl ''1'' ''ms'' ''<'' ''False'')"
  by code_simp

subsection \<open>C3: which isomers are rendered\<close>

text \<open>
  Claim C3 says that only the first genuine isomer is used. The loop over the isomers
  has no \<^verbatim>\<open>break\<close>, and its body draws at places that depend on the nuclide alone. For
  a placeholder isomer (relation \<^verbatim>\<open><\<close>) followed by two genuine ones, the main loop
  sets the flag, the placeholder is passed over, and the call draws the inset, the
  divider and the four captions of the first genuine isomer and then those of the
  second over them, the ground-state captions twice. Without the second genuine isomer
  the call draws what the claim describes.
\<close>

theorem C3_later_genuine_isomer_is_drawn_too:
  "main_is_isomer
     [\<lparr>iso_half_life = hl ''1'' ''ms'' ''<'' ''False'', iso_decay_modes = [dm ''it'' ''100'']\<rparr>,
      \<lparr>iso_half_life = hl ''1.5'' ''h'' ''='' ''False'', iso_decay_modes = [dm ''it'' ''100'']\<rparr>,
      \<lparr>iso_half_life = hl ''2.5'' ''m'' ''='' ''False'', iso_decay_modes = [dm ''b-'' ''100'']\<rparr>]
     False = True \<and>
   res_ops (draw_nuclide example_builtins
      (example_nuclide [dm ''b-'' ''100''] (hl ''12.3'' ''y'' ''='' ''False'')
         [\<lparr>iso_half_life = hl ''1'' ''ms'' ''<'' ''False'', iso_decay_modes = [dm ''it'' ''100'']\<rparr>,
          \<lparr>iso_half_life = hl ''1.5'' ''h'' ''='' ''False'', iso_decay_modes = [dm ''it'' ''100'']\<rparr>,
          \<lparr>iso_half_life = hl ''2.5'' ''m'' ''='' ''False'', iso_decay_modes = [dm ''b-'' ''100'']\<rparr>])
      all_enabled True) =
     [DrawRectangle ''#62aeff'',
      DrawText IsomerNameSlot ''#000000'' 5 ''$*100*$Sn'',
      DrawIsomerRectangle ''#ffffff'', DrawIsomerLine,
      DrawText GroundValueSlot ''#000000'' 3 ''12.3'',
      DrawText GroundUnitSlot ''#000000'' 3 ''y'',
      DrawText IsomerValueSlot ''#000000'' 3 ''1.5'',
      DrawText IsomerUnitSlot ''#000000'' 3 ''h'',
      DrawIsomerRectangle ''#62aeff'', DrawIsomerLine,
      DrawText GroundValueSlot ''#000000'' 3 ''12.3'',
      DrawText GroundUnitSlot ''#000000'' 3 ''y'',
      DrawText IsomerValueSlot ''#000000'' 3 ''2.5'',
      DrawText IsomerUnitSlot ''#000000'' 3 ''m''] \<and>
   res_ops (draw_nuclide example_builtins
      (example_nuclide [dm ''b-'' ''100''] (hl ''12.3'' ''y'' ''='' ''False'')
         [\<lparr>iso_half_life = hl ''1'' ''ms'' ''<'' ''False'', iso_decay_modes = [dm ''it'' ''100'']\<rparr>,
          \<lparr>iso_half_life = hl ''1.5'' ''h'' ''='' ''False'', iso_decay_modes = [dm ''it'' ''100'']\<rparr>])
      all_enabled True) =
     [DrawRectangle ''#62aeff'',
      DrawText IsomerNameSlot ''#000000'' 5 ''$*100*$Sn'',
      DrawIsomerRectangle ''#ffffff'', DrawIsomerLine,
      DrawText GroundValueSlot ''#000000'' 3 ''12.3'',
      DrawText GroundUnitSlot ''#000000'' 3 ''y'',
      DrawText IsomerValueSlot ''#000000'' 3 ''1.5'',
      DrawText IsomerUnitSlot ''#000000'' 3 ''h'']"
  by code_simp

subsection \<open>C4: the unknown half-life\<close>

text \<open>
  Claim C4, as amended. For a nuclide that is drawn in the normal branch, is not stable,
  has half-lives enabled and is not extrapolated, and whose half-life value is
  \<^verbatim>\<open>'?'\<close>, the half-life text is the literal \<^verbatim>\<open>?\<close>, without unit and without
  relation.
\<close>

theorem C4_unknown_half_life_is_drawn_literally:
  assumes "primary_pass ar (decay_modes nuc) = Inr (Some (dms, pc))"
    and "\<not> str_contains ''unstable'' (hl_value (half_life nuc))"
    and "pc \<noteq> color_of ''is''"
    and "hl_value (half_life nuc) = ''?''"
    and "\<not> (args_isomers ar \<and> is_isomer)"
    and "args_halflives ar"
    and "hl_extrapolated (half_life nuc) \<noteq> ''True''"
  shows "texts_at HalfLifeSlot (res_ops (draw_nuclide py nuc ar is_isomer)) = [''?'']"
proof -
  have "\<not> sci_re_match ''?''"
    by (simp add: sci_re_match_def after_mantissa_def drop_sign_def is_sign_def is_digit_def)
  then have "half_life_string py dms (half_life nuc) pc = Inr ''?''"
    using assms(3,4) by (simp add: half_life_string_def sci_format_def)
  from draw_nuclide_half_life_text [OF assms(1,2,5,6,7) this] show ?thesis by simp
qed

text \<open>
  A beta-minus emitter of unknown half-life.
\<close>

theorem C4_witness:
  "texts_at HalfLifeSlot (res_ops (draw_nuclide example_builtins
      (example_nuclide [dm ''b-'' ''100''] (hl ''?'' ''s'' ''='' ''False'') [])
      all_enabled False)) = [''?'']"
proof -
  let ?n = "example_nuclide [dm ''b-'' ''100''] (hl ''?'' ''s'' ''='' ''False'') []"
  have h1: "primary_pass all_enabled (decay_modes ?n) =
      Inr (Some ([dm ''b-'' ''100''], color_of ''b-''))"
    by (simp add: example_nuclide_def primary_pass_def dm_def basic_decay_modes_def)
  have h2: "\<not> str_contains ''unstable'' (hl_value (half_life ?n))"
    by (simp add: example_nuclide_def hl_def)
  have h3: "color_of ''b-'' \<noteq> color_of ''is''" by (simp add: color_values)
  have h4: "hl_value (half_life ?n) = ''?''" by (simp add: example_nuclide_def hl_def)
  have h5: "\<not> (args_isomers all_enabled \<and> False)" by simp
  have h6: "args_halflives all_enabled" by (simp add: all_enabled_def)
  have h7: "hl_extrapolated (half_life ?n) \<noteq> ''True''" by (simp add: example_nuclide_def hl_def)
  show ?thesis
    using C4_unknown_half_life_is_drawn_literally [OF h1 h2 h3 h4 h5 h6 h7] .
qed

text \<open>
  Claim C4 as stated fails there: the text is \<^verbatim>\<open>?\<close>, not \<^verbatim>\<open>100%\<close>.
\<close>

theorem C4_counterexample:
  "texts_at HalfLifeSlot (res_ops (draw_nuclide example_builtins
      (example_nuclide [dm ''b-'' ''100''] (hl ''?'' ''s'' ''='' ''False'') [])
      all_enabled False)) = [''?''] \<and>
   ''?'' \<noteq> dm_value (dm ''b-'' ''100'') @ ''%''"
  by code_simp

subsection \<open>C5: the nested isomer encoding\<close>




subsection \<open>C6: nuclides without a basic mode\<close>

text \<open>
  Claim C6. A nuclide whose first decay mode is neither a basic mode nor \<^verbatim>\<open>'?'\<close>, and
  none of whose later decay modes is a basic mode, is skipped: \<^verbatim>\<open>draw_nuclide\<close> returns
  without a drawing call, without an exception, and leaves the decay modes as they were.
\<close>

theorem C6_no_basic_mode_is_skipped:
  assumes "decay_modes nuc = d0 # rest"
    and "mode d0 \<notin> set basic_decay_modes"
    and "mode d0 \<noteq> ''?''"
    and "\<forall>d \<in> set rest. mode d \<notin> set basic_decay_modes"
  shows "draw_nuclide py nuc ar is_isomer =
           \<lparr>res_modes = decay_modes nuc, res_ops = [], res_err = None\<rparr>"
proof -
  have "find_basic rest 1 = None" using assms(4) by (simp add: find_basic_None)
  with assms(2,3) have "primary_pass ar (d0 # rest) = Inr None"
    by (intro primary_pass_skip) auto
  with assms(1) show ?thesis by (simp add: draw_nuclide_def)
qed

text \<open>
  The two neutron-emission modes of the example are not basic modes.
\<close>

theorem C6_witness:
  "draw_nuclide example_builtins
     (example_nuclide [dm ''b-n'' ''60'', dm ''b-2n'' ''40''] (hl ''12.3'' ''ms'' ''='' ''False'') [])
     all_enabled False =
   \<lparr>res_modes = [dm ''b-n'' ''60'', dm ''b-2n'' ''40''], res_ops = [], res_err = None\<rparr>"
  using C6_no_basic_mode_is_skipped
    [of "example_nuclide [dm ''b-n'' ''60'', dm ''b-2n'' ''40''] (hl ''12.3'' ''ms'' ''='' ''False'') []"
        "dm ''b-n'' ''60''" "[dm ''b-2n'' ''40'']" example_builtins all_enabled False]
  by (simp add: example_nuclide_def dm_def basic_decay_modes_def)

subsection \<open>C7: the threshold of the large triangle\<close>

text \<open>
  Claim C7. The threshold of the large triangle is strict. The secondary loop, at a
  basic-mode entry whose value parses to exactly 5, sets the size to \<^verbatim>\<open>'small'\<close>
  whatever the state before; at a value above 5 it sets \<^verbatim>\<open>'large'\<close> provided the
  primary colour is not the colour of a stable nuclide. For a nuclide with two decay
  modes this is the secondary marker.
\<close>

theorem C7_large_threshold_is_strict:
  assumes "mode d \<in> set basic_decay_modes"
    and "py_float py (strip_hash (dm_value d)) = Some (Fin x)"
  shows "(x = 5 \<longrightarrow>
            secondary_scan py basic_decay_modes pc (d # ds) st =
              secondary_scan py basic_decay_modes pc ds (Some (color_of (mode d)), Some Small) \<and>
            classify_markers py basic_decay_modes pc [d0, d] None =
              (Some (color_of (mode d)), Some Small, None)) \<and>
         (5 < x \<and> pc \<noteq> color_of ''is'' \<longrightarrow>
            secondary_scan py basic_decay_modes pc (d # ds) st =
              secondary_scan py basic_decay_modes pc ds (Some (color_of (mode d)), Some Large) \<and>
            classify_markers py basic_decay_modes pc [d0, d] None =
              (Some (color_of (mode d)), Some Large, None))"
  using assms by (simp add: classify_markers_def)

text \<open>
  The values \<^verbatim>\<open>'5.0'\<close> and \<^verbatim>\<open>'5.0001'\<close> of an alpha branch next to beta-minus.
\<close>

theorem C7_witness:
  "classify_markers example_builtins basic_decay_modes (color_of ''b-'')
     [dm ''b-'' ''95'', dm ''a'' ''5.0''] None = (Some (color_of ''a''), Some Small, None) \<and>
   classify_markers example_builtins basic_decay_modes (color_of ''b-'')
     [dm ''b-'' ''94.9999'', dm ''a'' ''5.0001''] None = (Some (color_of ''a''), Some Large, None)"
proof -
  have a: "mode (dm ''a'' v) \<in> set basic_decay_modes" for v
    by (simp add: dm_def basic_decay_modes_def)
  have f5: "py_float example_builtins (strip_hash (dm_value (dm ''a'' ''5.0''))) = Some (Fin 5)"
    by (simp add: example_builtins_def decimal_float_def dm_def strip_hash_def is_digit_def
        digits_value_def)
  have f6: "py_float example_builtins (strip_hash (dm_value (dm ''a'' ''5.0001''))) =
      Some (Fin (50001 / 10000))"
    by (simp add: example_builtins_def decimal_float_def dm_def strip_hash_def is_digit_def
        digits_value_def)
  have ne: "color_of ''b-'' \<noteq> color_of ''is''" by (simp add: color_values)
  have m: "mode (dm ''a'' v) = ''a''" for v by (simp add: dm_def)
  show ?thesis
    using C7_large_threshold_is_strict [OF a f5, of "color_of ''b-''" "[]" "(None, None)" "dm ''b-'' ''95''"]
      C7_large_threshold_is_strict [OF a f6, of "color_of ''b-''" "[]" "(None, None)" "dm ''b-'' ''94.9999''"]
      ne
    by (simp add: m)
qed

subsection \<open>C8: extrapolated half-lives\<close>

text \<open>
  Claim C8 says that the half-life of a nuclide whose \<^verbatim>\<open>extrapolated\<close> entry is
  \<^verbatim>\<open>'True'\<close> is never drawn. The normal branch tests the entry (the last equation: no
  half-life text); the isomer branch does not: with a genuine isomer, for which the main
  loop sets the flag, the ground-state captions \<^verbatim>\<open>12.3\<close> and \<^verbatim>\<open>y\<close> are drawn.
\<close>

theorem C8_extrapolated_half_life_is_drawn_with_isomer:
  "main_is_isomer
     [\<lparr>iso_half_life = hl ''2.5'' ''h'' ''='' ''False'', iso_decay_modes = [dm ''it'' ''100'']\<rparr>]
     False = True \<and>
   texts_at GroundValueSlot (res_ops (draw_nuclide example_builtins
      (example_nuclide [dm ''b-'' ''100''] (hl ''12.3'' ''y'' ''='' ''True'')
         [\<lparr>iso_half_life = hl ''2.5'' ''h'' ''='' ''False'', iso_decay_modes = [dm ''it'' ''100'']\<rparr>])
      all_enabled True)) = [''12.3''] \<and>
   texts_at GroundUnitSlot (res_ops (draw_nuclide example_builtins
      (example_nuclide [dm ''b-'' ''100''] (hl ''12.3'' ''y'' ''='' ''True'')
         [\<lparr>iso_half_life = hl ''2.5'' ''h'' ''='' ''False'', iso_decay_modes = [dm ''it'' ''100'']\<rparr>])
      all_enabled True)) = [''y''] \<and>
   texts_at HalfLifeSlot (res_ops (draw_nuclide example_builtins
      (example_nuclide [dm ''b-'' ''100''] (hl ''12.3'' ''y'' ''='' ''True'') [])
      all_enabled False)) = []"
  by code_simp

subsection \<open>C9: no swap when the first mode is basic\<close>

text \<open>
  Claim C9. When the first decay mode is a basic mode, the call leaves the decay modes
  unchanged; and a second call on the decay modes as a first call left them gives the
  same drawing calls, the same decay modes and the same outcome as the first.
\<close>

theorem C9_basic_first_is_not_swapped:
  assumes "r = draw_nuclide py nuc ar is_isomer"
  shows "(decay_modes nuc \<noteq> [] \<and> mode (hd (decay_modes nuc)) \<in> set basic_decay_modes
            \<longrightarrow> res_modes r = decay_modes nuc) \<and>
         draw_nuclide py (nuc\<lparr>decay_modes := res_modes r\<rparr>) ar is_isomer = r"
proof -
  have "res_modes r = decay_modes nuc"
    if "decay_modes nuc \<noteq> []" "mode (hd (decay_modes nuc)) \<in> set basic_decay_modes"
  proof -
    from that obtain d0 rest where d: "decay_modes nuc = d0 # rest"
      "mode d0 \<in> set basic_decay_modes" by (cases "decay_modes nuc") auto
    show ?thesis using assms d primary_pass_basic [OF d(2), of ar rest]
      by (simp add: draw_nuclide_def Let_def)
  qed
  then show ?thesis using assms draw_nuclide_idem by blast
qed

text \<open>
  An alpha emitter with a fission branch: nothing is swapped, twice.
\<close>

theorem C9_witness:
  "res_modes (draw_nuclide example_builtins
       (example_nuclide [dm ''a'' ''97'', dm ''sf'' ''3''] (hl ''12.3'' ''y'' ''='' ''False'') [])
       all_enabled False) = [dm ''a'' ''97'', dm ''sf'' ''3''] \<and>
   draw_nuclide example_builtins
     ((example_nuclide [dm ''a'' ''97'', dm ''sf'' ''3''] (hl ''12.3'' ''y'' ''='' ''False'') [])
        \<lparr>decay_modes := res_modes (draw_nuclide example_builtins
           (example_nuclide [dm ''a'' ''97'', dm ''sf'' ''3''] (hl ''12.3'' ''y'' ''='' ''False'') [])
           all_enabled False)\<rparr>)
     all_enabled False =
   draw_nuclide example_builtins
     (example_nuclide [dm ''a'' ''97'', dm ''sf'' ''3''] (hl ''12.3'' ''y'' ''='' ''False'') [])
     all_enabled False"
  using C9_basic_first_is_not_swapped [where py = example_builtins and ar = all_enabled
      and is_isomer = False
      and nuc = "example_nuclide [dm ''a'' ''97'', dm ''sf'' ''3''] (hl ''12.3'' ''y'' ''='' ''False'') []",
      OF refl]
  by (simp add: example_nuclide_def dm_def basic_decay_modes_def)

subsection \<open>C10: the swap and the unstable nuclides\<close>

text \<open>
  Claim C10. The swap is made before the test for \<^verbatim>\<open>'unstable'\<close>: a nuclide whose first
  decay mode is not accepted, whose first basic mode stands at index \<open>i\<close>, and whose
  half-life value contains \<^verbatim>\<open>'unstable'\<close> draws nothing, and yet its decay modes are left
  swapped, different from what they were.
\<close>

theorem C10_swap_survives_unstable_skip:
  assumes "decay_modes nuc = dms"
    and "mode (dms ! 0) \<notin> set basic_decay_modes"
    and "\<not> (mode (dms ! 0) = ''?'' \<and> args_unknown ar)"
    and "0 < i" "i < length dms"
    and "mode (dms ! i) \<in> set basic_decay_modes"
    and "\<forall>j. 0 < j \<and> j < i \<longrightarrow> mode (dms ! j) \<notin> set basic_decay_modes"
    and "str_contains ''unstable'' (hl_value (half_life nuc))"
    and "r = draw_nuclide py nuc ar is_isomer"
  shows "res_ops r = [] \<and> res_err r = None \<and>
         res_modes r = dms[0 := dms ! i, i := dms ! 0] \<and> res_modes r \<noteq> dms"
proof -
  from assms(4,5) obtain d0 rest where d: "dms = d0 # rest" by (cases dms) auto
  from assms(4) obtain k where k: "i = Suc k" by (cases i) auto
  have kl: "k < length rest" using assms(5) d k by simp
  have "\<forall>j < k. mode (rest ! j) \<notin> set basic_decay_modes"
  proof (intro allI impI)
    fix j assume "j < k"
    then have "0 < Suc j \<and> Suc j < i" using k by simp
    with assms(7) have "mode (dms ! Suc j) \<notin> set basic_decay_modes" by blast
    then show "mode (rest ! j) \<notin> set basic_decay_modes" using d by simp
  qed
  then have fb: "find_basic rest 1 = Some i"
    using kl k d assms(6) by (intro find_basic_first) auto
  have nb: "mode d0 \<notin> set basic_decay_modes" "\<not> (mode d0 = ''?'' \<and> args_unknown ar)"
    using assms(2,3) d by auto
  have pp: "primary_pass ar (decay_modes nuc) =
      Inr (Some ((rest ! k) # rest[k := d0], color_of (mode (rest ! k))))"
    using primary_pass_swap [OF nb fb] assms(1) d k by simp
  have sw: "dms[0 := dms ! i, i := dms ! 0] = (rest ! k) # rest[k := d0]"
    using d k by simp
  have ne: "rest ! k \<noteq> d0" using assms(6) nb(1) d k by auto
  show ?thesis using pp sw ne assms(8,9) d by (simp add: draw_nuclide_def)
qed

text \<open>
  A proton-unstable nuclide listing \<^verbatim>\<open>b+p\<close> before \<^verbatim>\<open>b+\<close>.
\<close>

theorem C10_witness:
  "res_ops (draw_nuclide example_builtins
       (example_nuclide [dm ''b+p'' ''60'', dm ''b+'' ''100''] (hl ''p-unstable'' ''s'' ''='' ''False'') [])
       all_enabled False) = [] \<and>
   res_err (draw_nuclide example_builtins
       (example_nuclide [dm ''b+p'' ''60'', dm ''b+'' ''100''] (hl ''p-unstable'' ''s'' ''='' ''False'') [])
       all_enabled False) = None \<and>
   res_modes (draw_nuclide example_builtins
       (example_nuclide [dm ''b+p'' ''60'', dm ''b+'' ''100''] (hl ''p-unstable'' ''s'' ''='' ''False'') [])
       all_enabled False) = [dm ''b+'' ''100'', dm ''b+p'' ''60''] \<and>
   res_modes (draw_nuclide example_builtins
       (example_nuclide [dm ''b+p'' ''60'', dm ''b+'' ''100''] (hl ''p-unstable'' ''s'' ''='' ''False'') [])
       all_enabled False) \<noteq> [dm ''b+p'' ''60'', dm ''b+'' ''100'']"
  using C10_swap_survives_unstable_skip [where py = example_builtins and ar = all_enabled
      and is_isomer = False and i = 1
      and nuc = "example_nuclide [dm ''b+p'' ''60'', dm ''b+'' ''100''] (hl ''p-unstable'' ''s'' ''='' ''False'') []",
      OF refl _ _ _ _ _ _ _ refl]
  by (simp add: example_nuclide_def dm_def hl_def basic_decay_modes_def)

end
